theory Spec2Isabelle
  imports Main "HOL-Library.Word"
begin

unbundle bit_operations_syntax

section \<open>SM2 public-key encryption: a shallow embedding of \<^verbatim>\<open>crypto/sm2/sm2_enc.c\<close>\<close>

subsection \<open>Bytes, outcomes and the collaborators\<close>

type_synonym byte = "8 word"
type_synonym octets = "byte list"

text \<open>
  A call either returns a value to its caller or dies in \<^verbatim>\<open>OPENSSL_assert\<close>, which
  terminates the process and returns nothing.
\<close>

datatype 'a outcome = Return 'a | Abort

text \<open>
  The digest collaborator. \<open>EVP_MD_size\<close> is the output size of the digest;
  \<open>EVP_Digest md chunks\<close> stands for the call sequence \<^verbatim>\<open>EVP_DigestInit_ex\<close>, one
  \<^verbatim>\<open>EVP_DigestUpdate\<close> for each chunk in order, \<^verbatim>\<open>EVP_DigestFinal_ex\<close>: \<open>None\<close> when one
  of the calls returns 0, otherwise the digest bytes (their number is what
  \<^verbatim>\<open>EVP_DigestFinal_ex\<close> stores in its length argument).
\<close>

record EVP_MD =
  EVP_MD_size :: int
  EVP_Digest :: "octets list \<Rightarrow> octets option"

text \<open>
  Modelled from the spec: the KDF collaborator (\<^verbatim>\<open>KDF_FUNC\<close>, declared outside this
  file) takes an input byte sequence and a desired output length and produces that many
  mask bytes. \<open>kdf z klen i\<close> is byte \<open>i\<close> of the mask of \<open>klen\<close> bytes derived from \<open>z\<close>;
  the call writes \<open>klen\<close> bytes and leaves the length it was given unchanged.
\<close>

type_synonym KDF_FUNC = "octets \<Rightarrow> nat \<Rightarrow> nat \<Rightarrow> byte"

definition kdf_call :: "KDF_FUNC \<Rightarrow> octets \<Rightarrow> nat \<Rightarrow> octets" where
  "kdf_call kdf z klen = map (kdf z klen) [0..<klen]"

text \<open>
  The elliptic-curve collaborator, for points of type \<open>'p\<close>. A call that can return 0
  yields \<open>None\<close> then. \<open>EC_POINT_mul_G grp k\<close> is
  \<^verbatim>\<open>EC_POINT_mul(group, r, k, NULL, NULL, ctx)\<close>, the multiple \<open>[k]G\<close> of the generator;
  \<open>EC_POINT_mul_Q grp q m\<close> is \<^verbatim>\<open>EC_POINT_mul(group, r, NULL, q, m, ctx)\<close>, the multiple
  \<open>[m]q\<close>, where the scalar pointer \<open>m\<close> may be \<^verbatim>\<open>NULL\<close>. \<open>EC_POINT_point2oct grp q\<close> is
  the uncompressed encoding written to \<^verbatim>\<open>buf\<close>; its length is the value returned, and
  the empty list stands for the return value 0. The degree of the field is a natural
  number, and so is \<^verbatim>\<open>nbytes\<close>.
\<close>

record 'p EC_GROUP =
  EC_GROUP_get_order :: "nat option"
  EC_GROUP_get_cofactor :: "nat option"
  EC_GROUP_get_degree :: nat
  EC_POINT_mul_G :: "nat \<Rightarrow> 'p option"
  EC_POINT_mul_Q :: "'p \<Rightarrow> nat option \<Rightarrow> 'p option"
  EC_POINT_is_at_infinity :: "'p \<Rightarrow> bool"
  EC_POINT_point2oct :: "'p \<Rightarrow> octets"

record 'p EC_KEY =
  EC_KEY_get0_group :: "'p EC_GROUP option"
  EC_KEY_get0_public_key :: "'p option"
  EC_KEY_get0_private_key :: "nat option"

text \<open>
  The ciphertext value: C1 (\<open>ephem_point\<close>), C2 (\<open>ciphertext\<close>, with its recorded size)
  and C3 (\<open>mactag\<close>, with its recorded size).
\<close>

record 'p SM2_CIPHERTEXT_VALUE =
  ephem_point :: 'p
  ciphertext :: octets
  ciphertext_size :: nat
  mactag :: octets
  mactag_size :: nat

text \<open>
  What one call takes from its surroundings: the KDF lookup, whether each allocation
  returns a non-\<^verbatim>\<open>NULL\<close> pointer, the random draws (\<open>BN_rand_range env i n\<close> is the value
  the \<open>i\<close>-th call \<^verbatim>\<open>BN_rand_range(k, n)\<close> stores in \<open>k\<close>), and the stack frame around the
  local array \<^verbatim>\<open>buf\<close>: the byte stored just below it and its contents on entry.
\<close>

record env =
  KDF_get_x9_63 :: "EVP_MD \<Rightarrow> KDF_FUNC option"
  sizeof_SM2_CIPHERTEXT_VALUE :: nat
  OPENSSL_malloc :: "nat \<Rightarrow> bool"
  EC_POINT_new :: bool
  BN_new :: bool
  BN_CTX_new :: bool
  EVP_MD_CTX_create :: bool
  BN_rand_range :: "nat \<Rightarrow> nat \<Rightarrow> nat"
  below_buf :: byte
  buf_on_entry :: octets

subsection \<open>Memory around \<^verbatim>\<open>buf\<close>\<close>

text \<open>
  \<open>at_buf env buf off n\<close> are the \<open>n\<close> bytes at address \<^verbatim>\<open>buf + off\<close>, for \<open>off \<ge> -1\<close>,
  when the array holds \<open>buf\<close>: offset \<open>-1\<close> is the byte below the array.
\<close>

definition at_buf :: "env \<Rightarrow> octets \<Rightarrow> int \<Rightarrow> nat \<Rightarrow> octets" where
  "at_buf env buf off n = take n (drop (nat (off + 1)) (below_buf env # buf))"

text \<open>\<^verbatim>\<open>EC_POINT_point2oct\<close> overwrites the first bytes of \<^verbatim>\<open>buf\<close> and leaves the rest.\<close>

definition store_oct :: "env \<Rightarrow> octets \<Rightarrow> octets" where
  "store_oct env oct = oct @ drop (length oct) (buf_on_entry env)"

text \<open>
  \<^verbatim>\<open>BN_num_bytes(n)\<close>: the number of bytes of the shortest big-endian representation.
\<close>

fun BN_num_bytes :: "nat \<Rightarrow> nat" where
  "BN_num_bytes n = (if n = 0 then 0 else Suc (BN_num_bytes (n div 256)))"

declare BN_num_bytes.simps [simp del]

text \<open>
  \<^verbatim>\<open>for (i = 0; i < n; i++) dst[i] ^= src[i];\<close> where \<open>src\<close> holds the \<open>n\<close> bytes read:
  bytes of \<open>dst\<close> from index \<open>n\<close> on are left as they are.
\<close>

fun xor_bytes :: "octets \<Rightarrow> octets \<Rightarrow> octets" where
  "xor_bytes (d # dst) (s # src) = (d XOR s) # xor_bytes dst src"
| "xor_bytes dst [] = dst"
| "xor_bytes [] src = []"

subsection \<open>\<^verbatim>\<open>SM2_do_encrypt\<close>\<close>

text \<open>
  Lines 24 to 81: the \<^verbatim>\<open>NULL\<close> checks, the allocations, the domain parameters and the
  assertions. \<open>Inl r\<close>: the call ends here with outcome \<open>r\<close> (the \<^verbatim>\<open>err\<close> label returns
  \<^verbatim>\<open>NULL\<close>). \<open>Inr\<close>: the retry loop is entered.
\<close>

definition SM2_do_encrypt_init ::
  "env \<Rightarrow> EVP_MD \<Rightarrow> EVP_MD \<Rightarrow> octets \<Rightarrow> 'p EC_KEY \<Rightarrow>
   ('p SM2_CIPHERTEXT_VALUE option) outcome + ('p EC_GROUP \<times> 'p \<times> KDF_FUNC \<times> nat \<times> nat \<times> nat)" where
  "SM2_do_encrypt_init env kdf_md mac_md inp ec_key =
    (case EC_KEY_get0_group ec_key of None \<Rightarrow> Inl (Return None) | Some ec_group \<Rightarrow>
     case EC_KEY_get0_public_key ec_key of None \<Rightarrow> Inl (Return None) | Some pub_key \<Rightarrow>
     case KDF_get_x9_63 env kdf_md of None \<Rightarrow> Inl (Return None) | Some kdf \<Rightarrow>
     if \<not> OPENSSL_malloc env (sizeof_SM2_CIPHERTEXT_VALUE env) then Inl (Return None)
     else if \<not> EC_POINT_new env then Inl (Return None)
     else if \<not> OPENSSL_malloc env (length inp) then Inl (Return None)
     else if \<not> EC_POINT_new env then Inl (Return None)
     else if \<not> BN_new env then Inl (Return None)
     else if \<not> BN_CTX_new env then Inl (Return None)
     else if \<not> EVP_MD_CTX_create env then Inl (Return None)
     else
     case EC_GROUP_get_order ec_group of None \<Rightarrow> Inl (Return None) | Some n \<Rightarrow>
     case EC_GROUP_get_cofactor ec_group of None \<Rightarrow> Inl (Return None) | Some h \<Rightarrow>
     let nbytes = (EC_GROUP_get_degree ec_group + 7) div 8 in
     if nbytes \<noteq> BN_num_bytes n then Inl Abort
     else if nbytes \<noteq> 32 then Inl Abort
     else if EVP_MD_size kdf_md \<noteq> 32 then Inl Abort
     else if EVP_MD_size mac_md \<noteq> 32 then Inl Abort
     else Inr (ec_group, pub_key, kdf, n, h, nbytes))"

text \<open>
  Lines 86 to 88, step A1: draw until the value is not zero. The result is the scalar and
  the number of draws made so far; \<open>None\<close> when every draw is zero and the loop runs
  forever.
\<close>

partial_function (option) rand_k :: "env \<Rightarrow> nat \<Rightarrow> nat \<Rightarrow> (nat \<times> nat) option" where
  "rand_k env n i =
    (if BN_rand_range env i n = 0 then rand_k env n (Suc i)
     else Some (BN_rand_range env i n, Suc i))"

text \<open>
  Lines 83 to 127, the retry loop, from draw number \<open>i\<close>; \<open>klen\<close> is
  \<^verbatim>\<open>cv->ciphertext_size\<close>. \<open>Return None\<close> is \<^verbatim>\<open>goto err\<close>, \<open>Abort\<close> a failed assertion at
  line 111, and \<open>Return (Some (C1, buf, t))\<close> the \<^verbatim>\<open>break\<close> at line 125 with the
  ephemeral point, the contents of \<^verbatim>\<open>buf\<close> and the mask in \<^verbatim>\<open>cv->ciphertext\<close>. The
  \<^verbatim>\<open>continue\<close> at line 122 is the recursive call. \<open>None\<close>: the loop does not end.
\<close>

partial_function (option) SM2_do_encrypt_loop ::
  "env \<Rightarrow> 'p EC_GROUP \<Rightarrow> 'p \<Rightarrow> KDF_FUNC \<Rightarrow> nat \<Rightarrow> nat \<Rightarrow> nat \<Rightarrow> nat \<Rightarrow> nat \<Rightarrow>
   ('p \<times> octets \<times> octets) option outcome option" where
  "SM2_do_encrypt_loop env ec_group pub_key kdf n h nbytes klen i =
    Option.bind (rand_k env n i) (\<lambda>kj.
      case EC_POINT_mul_G ec_group (fst kj) of None \<Rightarrow> Some (Return None) | Some C1 \<Rightarrow>
      case EC_POINT_mul_Q ec_group pub_key (Some h) of None \<Rightarrow> Some (Return None) | Some hP \<Rightarrow>
      if EC_POINT_is_at_infinity ec_group hP then Some (Return None)
      else
      case EC_POINT_mul_Q ec_group pub_key (Some (fst kj)) of None \<Rightarrow> Some (Return None)
      | Some S \<Rightarrow>
      let oct = EC_POINT_point2oct ec_group S; len = length oct in
      if len = 0 then Some (Return None)
      else if len \<noteq> nbytes * 2 + 1 then Some Abort
      else
      let buf = store_oct env oct;
          t = kdf_call kdf (at_buf env buf (- 1) (len - 1)) klen in
      if list_all (\<lambda>b. b = 0) t
      then SM2_do_encrypt_loop env ec_group pub_key kdf n h nbytes klen (snd kj)
      else Some (Return (Some (C1, buf, t))))"

text \<open>
  The whole call, with \<^verbatim>\<open>in\<close> the bytes of \<open>inp\<close> and \<^verbatim>\<open>inlen\<close> their number. After the
  loop, lines 130 to 167: step A6 masks the message, step A7 computes the tag over the
  \<open>nbytes\<close> bytes at \<^verbatim>\<open>buf + 1\<close>, the message and the \<open>nbytes\<close> bytes at
  \<^verbatim>\<open>buf + 1 + nbytes\<close>. \<open>None\<close>: the call does not terminate. \<open>Some (Return None)\<close>: it
  returns \<^verbatim>\<open>NULL\<close>.
\<close>

definition SM2_do_encrypt ::
  "env \<Rightarrow> EVP_MD \<Rightarrow> EVP_MD \<Rightarrow> octets \<Rightarrow> 'p EC_KEY \<Rightarrow>
   ('p SM2_CIPHERTEXT_VALUE option) outcome option" where
  "SM2_do_encrypt env kdf_md mac_md inp ec_key =
    (case SM2_do_encrypt_init env kdf_md mac_md inp ec_key of
       Inl r \<Rightarrow> Some r
     | Inr (ec_group, pub_key, kdf, n, h, nbytes) \<Rightarrow>
       Option.bind (SM2_do_encrypt_loop env ec_group pub_key kdf n h nbytes (length inp) 0)
         (\<lambda>r. case r of
            Abort \<Rightarrow> Some Abort
          | Return None \<Rightarrow> Some (Return None)
          | Return (Some (C1, buf, t)) \<Rightarrow>
            (case EVP_Digest mac_md
                    [at_buf env buf 1 nbytes, inp, at_buf env buf (1 + int nbytes) nbytes] of
               None \<Rightarrow> Some (Return None)
             | Some tag \<Rightarrow>
               Some (Return (Some \<lparr> ephem_point = C1,
                                    ciphertext = xor_bytes t inp,
                                    ciphertext_size = length inp,
                                    mactag = tag,
                                    mactag_size = length tag \<rparr>)))))"

subsection \<open>\<^verbatim>\<open>SM2_do_decrypt\<close>\<close>

text \<open>
  The result of a returning call is the value returned, the caller's buffer (\<open>None\<close> for
  a \<^verbatim>\<open>NULL\<close> pointer) and the value of \<^verbatim>\<open>*outlen\<close>, as the caller sees them afterwards.

  Line 188 tests a name \<^verbatim>\<open>pub_key\<close> that the function does not declare; its value is the
  parameter \<open>pub_key\<close> here. The private key is fetched at line 176 and never tested.

  Lines 174 to 252, up to step B5. \<open>Inl r\<close>: the call ends with outcome \<open>r\<close>. \<open>Inr\<close>: the
  MAC check is reached, with \<open>nbytes\<close>, the contents of \<^verbatim>\<open>buf\<close>, and the caller's buffer
  after the KDF has written \<^verbatim>\<open>*outlen\<close> bytes to it (line 246) and the first
  \<^verbatim>\<open>cv->ciphertext_size\<close> of them have been combined with the ciphertext (line 251).
\<close>

definition SM2_do_decrypt_upto_B5 ::
  "env \<Rightarrow> 'q option \<Rightarrow> 'p SM2_CIPHERTEXT_VALUE \<Rightarrow> EVP_MD \<Rightarrow> EVP_MD \<Rightarrow> octets option \<Rightarrow> nat \<Rightarrow>
   'p EC_KEY \<Rightarrow> (int \<times> octets option \<times> nat) outcome + (nat \<times> octets \<times> octets)" where
  "SM2_do_decrypt_upto_B5 env pub_key cv kdf_md mac_md out outlen ec_key =
    (case EC_KEY_get0_group ec_key of None \<Rightarrow> Inl (Return (0, out, outlen)) | Some ec_group \<Rightarrow>
     case pub_key of None \<Rightarrow> Inl (Return (0, out, outlen)) | Some _ \<Rightarrow>
     case KDF_get_x9_63 env kdf_md of None \<Rightarrow> Inl (Return (0, out, outlen)) | Some kdf \<Rightarrow>
     case out of None \<Rightarrow> Inl (Return (1, None, ciphertext_size cv)) | Some ob \<Rightarrow>
     if outlen < ciphertext_size cv then Inl (Return (0, out, outlen))
     else if \<not> EC_POINT_new env then Inl (Return (0, out, outlen))
     else if \<not> BN_new env then Inl (Return (0, out, outlen))
     else if \<not> BN_CTX_new env then Inl (Return (0, out, outlen))
     else if \<not> EVP_MD_CTX_create env then Inl (Return (0, out, outlen))
     else
     case EC_GROUP_get_order ec_group of None \<Rightarrow> Inl (Return (0, out, outlen)) | Some n \<Rightarrow>
     case EC_GROUP_get_cofactor ec_group of None \<Rightarrow> Inl (Return (0, out, outlen)) | Some h \<Rightarrow>
     let nbytes = (EC_GROUP_get_degree ec_group + 7) div 8 in
     if nbytes \<noteq> BN_num_bytes n then Inl Abort
     else if nbytes \<noteq> 32 then Inl Abort
     else if EVP_MD_size kdf_md \<noteq> 32 then Inl Abort
     else if EVP_MD_size mac_md \<noteq> 32 then Inl Abort
     else
     case EC_POINT_mul_Q ec_group (ephem_point cv) (Some h) of
       None \<Rightarrow> Inl (Return (0, out, outlen))
     | Some hC1 \<Rightarrow>
     if EC_POINT_is_at_infinity ec_group hC1 then Inl (Return (0, out, outlen))
     else
     case EC_POINT_mul_Q ec_group (ephem_point cv) (EC_KEY_get0_private_key ec_key) of
       None \<Rightarrow> Inl (Return (0, out, outlen))
     | Some S \<Rightarrow>
     let oct = EC_POINT_point2oct ec_group S; len = length oct in
     if len = 0 then Inl (Return (0, out, outlen))
     else
     let buf = store_oct env oct;
         t = kdf_call kdf (at_buf env buf (- 1) (len - 1)) outlen;
         out1 = t @ drop outlen ob;
         out2 = xor_bytes out1 (take (ciphertext_size cv) (ciphertext cv))
     in Inr (nbytes, buf, out2))"

text \<open>
  The whole call. Lines 254 to 283, step B6: the tag is recomputed over the \<open>nbytes\<close>
  bytes at \<^verbatim>\<open>buf + 1\<close>, the \<^verbatim>\<open>*outlen\<close> bytes at \<^verbatim>\<open>out\<close> and the \<open>nbytes\<close> bytes at
  \<^verbatim>\<open>buf + 1 + nbytes\<close>, and compared with \<^verbatim>\<open>cv->mactag\<close> by length and by
  \<^verbatim>\<open>memcmp\<close> over that length. The operands of each \<^verbatim>\<open>||\<close> are tested from left to
  right, here and in the other functions.
\<close>

definition SM2_do_decrypt ::
  "env \<Rightarrow> 'q option \<Rightarrow> 'p SM2_CIPHERTEXT_VALUE \<Rightarrow> EVP_MD \<Rightarrow> EVP_MD \<Rightarrow> octets option \<Rightarrow> nat \<Rightarrow>
   'p EC_KEY \<Rightarrow> (int \<times> octets option \<times> nat) outcome" where
  "SM2_do_decrypt env pub_key cv kdf_md mac_md out outlen ec_key =
    (case SM2_do_decrypt_upto_B5 env pub_key cv kdf_md mac_md out outlen ec_key of
       Inl r \<Rightarrow> r
     | Inr (nbytes, buf, out2) \<Rightarrow>
       (case EVP_Digest mac_md
               [at_buf env buf 1 nbytes, take outlen out2,
                at_buf env buf (1 + int nbytes) nbytes] of
          None \<Rightarrow> Return (0, Some out2, outlen)
        | Some mac \<Rightarrow>
          if mactag_size cv \<noteq> length mac then Return (0, Some out2, outlen)
          else if take (length mac) (mactag cv) \<noteq> take (length mac) mac
          then Return (0, Some out2, outlen)
          else Return (1, Some out2, outlen)))"

subsection \<open>A small instance of the collaborators\<close>

text \<open>
  The theorems below are exercised on this instance: the additive group of the integers
  modulo \<open>2 ^ 255\<close> with generator 1 and cofactor 1, whose zero is the point at infinity;
  an encoding of a point \<open>q\<close> as \<open>0x04\<close>, 32 bytes \<open>q\<close> and 32 bytes \<open>q + 1\<close>; a KDF and
  a digest that depend on the bytes they are given and, for the digest, on their number;
  a random source that always draws 3; the key pair \<open>d = 5\<close>, \<open>P = [5]G\<close>.
\<close>

definition demo_order :: nat where
  "demo_order = 2 ^ 255"

definition demo_point2oct :: "nat \<Rightarrow> octets" where
  "demo_point2oct q =
     (if q = 0 then [0] else 4 # replicate 32 (of_nat q) @ replicate 32 (of_nat (q + 1)))"

definition demo_group :: "nat EC_GROUP" where
  "demo_group =
     \<lparr> EC_GROUP_get_order = Some demo_order,
       EC_GROUP_get_cofactor = Some 1,
       EC_GROUP_get_degree = 256,
       EC_POINT_mul_G = (\<lambda>k. Some (k mod demo_order)),
       EC_POINT_mul_Q =
         (\<lambda>q m. Some ((case m of None \<Rightarrow> 0 | Some s \<Rightarrow> s) * q mod demo_order)),
       EC_POINT_is_at_infinity = (\<lambda>q. q = 0),
       EC_POINT_point2oct = demo_point2oct \<rparr>"

definition demo_kdf :: KDF_FUNC where
  "demo_kdf z klen i = sum_list z + of_nat i + 1"

definition demo_md :: "int \<Rightarrow> EVP_MD" where
  "demo_md sz =
     \<lparr> EVP_MD_size = sz,
       EVP_Digest =
         (\<lambda>chunks. Some (of_nat (length (concat chunks)) # sum_list (concat chunks)
                          # replicate (nat sz - 2) 0)) \<rparr>"

definition demo_env :: "byte \<Rightarrow> env" where
  "demo_env b =
     \<lparr> KDF_get_x9_63 = (\<lambda>md. Some demo_kdf),
       sizeof_SM2_CIPHERTEXT_VALUE = 96,
       OPENSSL_malloc = (\<lambda>n. True),
       EC_POINT_new = True,
       BN_new = True,
       BN_CTX_new = True,
       EVP_MD_CTX_create = True,
       BN_rand_range = (\<lambda>i n. 3),
       below_buf = b,
       buf_on_entry = replicate 168 0 \<rparr>"

definition demo_key :: "nat \<Rightarrow> nat EC_KEY" where
  "demo_key P =
     \<lparr> EC_KEY_get0_group = Some demo_group,
       EC_KEY_get0_public_key = Some P,
       EC_KEY_get0_private_key = Some 5 \<rparr>"

text \<open>The ciphertext value of the message \<open>[0x41, 0x42]\<close> in this instance.\<close>

definition demo_cv :: "nat SM2_CIPHERTEXT_VALUE" where
  "demo_cv = \<lparr> ephem_point = 3, ciphertext = [132, 132], ciphertext_size = 2,
                mactag = 66 # 99 # replicate 30 0, mactag_size = 32 \<rparr>"

text \<open>The ciphertext value of the message \<open>[0x4D]\<close> in this instance.\<close>

definition demo_cv1 :: "nat SM2_CIPHERTEXT_VALUE" where
  "demo_cv1 = \<lparr> ephem_point = 3, ciphertext = [0x88], ciphertext_size = 1,
                 mactag = 65 # 45 # replicate 30 0, mactag_size = 32 \<rparr>"

text \<open>
  The same surroundings with an allocator that returns \<^verbatim>\<open>NULL\<close> for a request of zero
  bytes and a pointer for every other size.
\<close>

definition demo_env_null0 :: env where
  "demo_env_null0 = (demo_env 0) \<lparr> OPENSSL_malloc := (\<lambda>n. 0 < n) \<rparr>"

section \<open>Basic facts\<close>

lemma length_kdf_call: "length (kdf_call kdf z klen) = klen"
  by (simp add: kdf_call_def)

lemma length_xor_bytes: "length (xor_bytes dst src) = length dst"
  by (induction dst src rule: xor_bytes.induct) simp_all

lemma rand_k_nonzero:
  assumes "rand_k env n i = Some kj"
  shows "fst kj \<noteq> 0"
  by (rule rand_k.raw_induct [where P = "\<lambda>env n i kj. fst kj \<noteq> 0", OF _ assms])
    (auto split: if_splits)

lemma init_Inl:
  "SM2_do_encrypt_init env kdf_md mac_md inp ec_key = Inl r \<Longrightarrow> r = Return None \<or> r = Abort"
  by (auto simp: SM2_do_encrypt_init_def Let_def split: option.splits if_splits)

lemma init_Inr:
  assumes "SM2_do_encrypt_init env kdf_md mac_md inp ec_key = Inr (grp, P, kdf, n, h, nbytes)"
  shows "EC_KEY_get0_group ec_key = Some grp" "EC_KEY_get0_public_key ec_key = Some P"
    "KDF_get_x9_63 env kdf_md = Some kdf" "EC_GROUP_get_order grp = Some n"
    "EC_GROUP_get_cofactor grp = Some h" "nbytes = 32"
    "EVP_MD_size kdf_md = 32" "EVP_MD_size mac_md = 32" "OPENSSL_malloc env (length inp)"
  using assms
  by (auto simp: SM2_do_encrypt_init_def Let_def split: option.splits if_splits)


lemma loop_break:
  assumes "SM2_do_encrypt_loop env grp P kdf n h nbytes klen i = Some (Return (Some (C1, buf, t)))"
  shows "length t = klen \<and> \<not> list_all (\<lambda>b. b = 0) t"
proof -
  have "\<forall>C1 buf t. r = Return (Some (C1, buf, t)) \<longrightarrow> length t = klen \<and> \<not> list_all (\<lambda>b. b = 0) t"
    if "SM2_do_encrypt_loop env grp P kdf n h nbytes klen i = Some r" for r
    by (rule SM2_do_encrypt_loop.raw_induct
          [where P = "\<lambda>env grp P kdf n h nbytes klen i r.
             \<forall>C1 buf t. r = Return (Some (C1, buf, t)) \<longrightarrow>
               length t = klen \<and> \<not> list_all (\<lambda>b. b = 0) t", OF _ that])
       (auto simp: Let_def length_kdf_call split: option.splits if_splits Option.bind_splits)
  with assms show ?thesis by blast
qed

lemma loop_empty:
  assumes "SM2_do_encrypt_loop env grp P kdf n h nbytes 0 i = Some r"
  shows "r = Return None \<or> r = Abort"
  by (rule SM2_do_encrypt_loop.raw_induct
        [where P = "\<lambda>env grp P kdf n h nbytes klen i r. klen = 0 \<longrightarrow> r = Return None \<or> r = Abort",
         OF _ assms, rule_format])
     (auto simp: Let_def kdf_call_def split: option.splits if_splits Option.bind_splits)


lemma rand_k_draw:
  assumes "rand_k env n i = Some kj"
  shows "\<exists>i'. fst kj = BN_rand_range env i' n"
  by (rule rand_k.raw_induct [where P = "\<lambda>env n i kj. \<exists>i'. fst kj = BN_rand_range env i' n", OF _ assms])
    (auto split: if_splits)

lemma loop_empty_no_result:
  assumes "SM2_do_encrypt_loop env grp P kdf n h nbytes klen i = Some r"
  shows "klen = 0 \<longrightarrow> nbytes = 32 \<longrightarrow>
          (\<exists>hP. EC_POINT_mul_Q grp P (Some h) = Some hP \<and> \<not> EC_POINT_is_at_infinity grp hP) \<longrightarrow>
          (\<forall>i k. BN_rand_range env i n = k \<longrightarrow> k \<noteq> 0 \<longrightarrow>
             (\<exists>C1 S. EC_POINT_mul_G grp k = Some C1 \<and> EC_POINT_mul_Q grp P (Some k) = Some S \<and>
                length (EC_POINT_point2oct grp S) = 65)) \<longrightarrow> False"
  apply (rule SM2_do_encrypt_loop.raw_induct
          [where P = "\<lambda>env grp P kdf n h nbytes klen i r. klen = 0 \<longrightarrow> nbytes = 32 \<longrightarrow>
          (\<exists>hP. EC_POINT_mul_Q grp P (Some h) = Some hP \<and> \<not> EC_POINT_is_at_infinity grp hP) \<longrightarrow>
          (\<forall>i k. BN_rand_range env i n = k \<longrightarrow> k \<noteq> 0 \<longrightarrow>
             (\<exists>C1 S. EC_POINT_mul_G grp k = Some C1 \<and> EC_POINT_mul_Q grp P (Some k) = Some S \<and>
                length (EC_POINT_point2oct grp S) = 65)) \<longrightarrow> False", OF _ assms])
  subgoal premises prems for f env grp P kdf n h nbytes klen i r
  proof (intro impI)
    assume klen: "klen = 0" and nbytes: "nbytes = 32"
      and hP': "\<exists>hP. EC_POINT_mul_Q grp P (Some h) = Some hP \<and> \<not> EC_POINT_is_at_infinity grp hP"
      and dr: "\<forall>i k. BN_rand_range env i n = k \<longrightarrow> k \<noteq> 0 \<longrightarrow>
             (\<exists>C1 S. EC_POINT_mul_G grp k = Some C1 \<and> EC_POINT_mul_Q grp P (Some k) = Some S \<and>
                length (EC_POINT_point2oct grp S) = 65)"
    from prems(2) obtain kj where kj: "rand_k env n i = Some kj"
      by (cases "rand_k env n i") auto
    from rand_k_nonzero [OF kj] rand_k_draw [OF kj] dr
    obtain C1 S where ops: "EC_POINT_mul_G grp (fst kj) = Some C1"
        "EC_POINT_mul_Q grp P (Some (fst kj)) = Some S" "length (EC_POINT_point2oct grp S) = 65"
      by metis
    from hP' obtain hP where hp: "EC_POINT_mul_Q grp P (Some h) = Some hP"
        "\<not> EC_POINT_is_at_infinity grp hP"
      by blast
    from ops(3) have ne: "EC_POINT_point2oct grp S \<noteq> []"
      by auto
    from prems(2) have "f env grp P kdf n h nbytes klen (snd kj) = Some r"
      unfolding klen nbytes by (simp add: kj ops hp ne kdf_call_def Let_def)
    from prems(1) [OF this] klen nbytes hP' dr show False
      by blast
  qed
  done

lemma loop_empty_diverges:
  assumes hP: "EC_POINT_mul_Q grp P (Some h) = Some hP" "\<not> EC_POINT_is_at_infinity grp hP"
    and draws: "\<And>i k. BN_rand_range env i n = k \<Longrightarrow> k \<noteq> 0 \<Longrightarrow>
       \<exists>C1 S. EC_POINT_mul_G grp k = Some C1 \<and> EC_POINT_mul_Q grp P (Some k) = Some S \<and>
         length (EC_POINT_point2oct grp S) = 65"
  shows "SM2_do_encrypt_loop env grp P kdf n h 32 0 i = None"
proof (cases "SM2_do_encrypt_loop env grp P kdf n h 32 0 i")
  case None
  then show ?thesis .
next
  case (Some r)
  from loop_empty_no_result [OF Some] hP draws have False
    by blast
  then show ?thesis ..
qed

lemma encrypt_empty_no_ciphertext:
  "SM2_do_encrypt env kdf_md mac_md [] ec_key \<noteq> Some (Return (Some cv))"
proof (cases "SM2_do_encrypt_init env kdf_md mac_md [] ec_key")
  case (Inl r)
  with init_Inl [OF Inl] show ?thesis
    by (auto simp: SM2_do_encrypt_def)
next
  case (Inr st)
  obtain grp P kdf n h nbytes where st: "st = (grp, P, kdf, n, h, nbytes)"
    by (cases st) auto
  show ?thesis
  proof (cases "SM2_do_encrypt_loop env grp P kdf n h nbytes 0 0")
    case None
    with Inr st show ?thesis by (simp add: SM2_do_encrypt_def)
  next
    case (Some r)
    with loop_empty [OF Some] Inr st show ?thesis
      by (auto simp: SM2_do_encrypt_def)
  qed
qed

lemma loop_infinity:
  assumes "EC_POINT_mul_Q grp P (Some h) = Some hP" and "EC_POINT_is_at_infinity grp hP"
  shows "SM2_do_encrypt_loop env grp P kdf n h nbytes klen i
           = (case rand_k env n i of None \<Rightarrow> None | Some kj \<Rightarrow> Some (Return None))"
  using assms
  by (subst SM2_do_encrypt_loop.simps) (simp split: option.splits)


lemma upto_B5_Inr:
  assumes "SM2_do_decrypt_upto_B5 env pub_key cv kdf_md mac_md out outlen ec_key
             = Inr (nbytes, buf, out2)"
  shows "\<exists>grp kdf n h hC1 S ob.
           EC_KEY_get0_group ec_key = Some grp \<and> KDF_get_x9_63 env kdf_md = Some kdf \<and>
           out = Some ob \<and> ciphertext_size cv \<le> outlen \<and>
           EC_GROUP_get_order grp = Some n \<and> EC_GROUP_get_cofactor grp = Some h \<and>
           nbytes = 32 \<and> EVP_MD_size kdf_md = 32 \<and> EVP_MD_size mac_md = 32 \<and>
           EC_POINT_mul_Q grp (ephem_point cv) (Some h) = Some hC1 \<and>
           \<not> EC_POINT_is_at_infinity grp hC1 \<and>
           EC_POINT_mul_Q grp (ephem_point cv) (EC_KEY_get0_private_key ec_key) = Some S \<and>
           buf = store_oct env (EC_POINT_point2oct grp S) \<and>
           out2 = xor_bytes
                    (kdf_call kdf (at_buf env buf (- 1) (length (EC_POINT_point2oct grp S) - 1)) outlen
                       @ drop outlen ob)
                    (take (ciphertext_size cv) (ciphertext cv))"
  using assms
  by (auto simp: SM2_do_decrypt_upto_B5_def Let_def split: option.splits if_splits)

subsection \<open>What the KDF and the MAC are given\<close>

text \<open>
  For an encoding \<open>0x04 || x2 || y2\<close> with coordinates of 32 bytes, the bytes passed to
  the KDF (\<open>len - 1\<close> bytes at \<^verbatim>\<open>buf - 1\<close>) are the byte below the array, the prefix, \<open>x2\<close>
  and the first 30 bytes of \<open>y2\<close>; the bytes at \<^verbatim>\<open>buf + 1\<close> and \<^verbatim>\<open>buf + 1 + nbytes\<close>, used for
  the tag, are \<open>x2\<close> and \<open>y2\<close>.
\<close>

lemma kdf_input_shape:
  assumes "length x2 = 32" and "length y2 = 32"
  shows "at_buf env (store_oct env (4 # x2 @ y2)) (- 1) (length (4 # x2 @ y2) - 1)
           = below_buf env # 4 # x2 @ take 30 y2"
    and "at_buf env (store_oct env (4 # x2 @ y2)) 1 32 = x2"
    and "at_buf env (store_oct env (4 # x2 @ y2)) (1 + int 32) 32 = y2"
  using assms by (simp_all add: at_buf_def store_oct_def)

text \<open>
  A call of \<^verbatim>\<open>SM2_do_decrypt\<close> that returns 1 with a buffer has matched \<^verbatim>\<open>cv->mactag\<close>
  against the digest taken over the first \<^verbatim>\<open>*outlen\<close> bytes of the buffer.
\<close>

lemma decrypt_success_mac_input:
  assumes "SM2_do_decrypt env pub_key cv kdf_md mac_md out outlen ec_key = Return (1, Some out2, n')"
  shows "\<exists>buf mac. EVP_Digest mac_md
             [at_buf env buf 1 32, take outlen out2, at_buf env buf (1 + int 32) 32] = Some mac \<and>
           mactag_size cv = length mac \<and> take (length mac) (mactag cv) = mac \<and> n' = outlen"
proof (cases "SM2_do_decrypt_upto_B5 env pub_key cv kdf_md mac_md out outlen ec_key")
  case (Inl r)
  with assms have "out = None \<or> (\<exists>ob. out = Some ob)"
    by (cases out) auto
  with Inl assms show ?thesis
    by (auto simp: SM2_do_decrypt_def SM2_do_decrypt_upto_B5_def Let_def
        split: option.splits if_splits)
next
  case (Inr st)
  obtain nbytes buf o2 where st: "st = (nbytes, buf, o2)"
    by (cases st) auto
  from upto_B5_Inr [OF Inr [unfolded st]] have "nbytes = 32"
    by blast
  with assms Inr st show ?thesis
    by (auto simp: SM2_do_decrypt_def split: option.splits if_splits)
qed

subsection \<open>The round trip at exact capacity\<close>

text \<open>
  What the two functions do achieve together: when decryption runs in the same
  surroundings as encryption (so with the same byte below \<^verbatim>\<open>buf\<close>), the group gives both
  sides the same shared point, \<open>[h]C1\<close> is not the point at infinity, and the declared
  capacity is exactly the length of the message, decrypting the value that encryption
  returned yields the message.
\<close>

lemma init_Inr_allocs:
  assumes "SM2_do_encrypt_init env kdf_md mac_md inp ec_key = Inr (grp, P, kdf, n, h, nbytes)"
  shows "EC_POINT_new env" "BN_new env" "BN_CTX_new env" "EVP_MD_CTX_create env"
    "(EC_GROUP_get_degree grp + 7) div 8 = 32" "BN_num_bytes n = 32"
  using assms
  by (auto simp: SM2_do_encrypt_init_def Let_def split: option.splits if_splits)

lemma loop_break_shape:
  assumes "SM2_do_encrypt_loop env grp P kdf n h nbytes klen i = Some (Return (Some (C1, buf, t)))"
  shows "\<exists>k S. k \<noteq> 0 \<and> EC_POINT_mul_G grp k = Some C1 \<and>
           EC_POINT_mul_Q grp P (Some k) = Some S \<and>
           length (EC_POINT_point2oct grp S) = nbytes * 2 + 1 \<and>
           buf = store_oct env (EC_POINT_point2oct grp S) \<and>
           t = kdf_call kdf (at_buf env buf (- 1) (nbytes * 2)) klen"
proof -
  have "\<forall>C1 buf t. r = Return (Some (C1, buf, t)) \<longrightarrow>
          (\<exists>k S. k \<noteq> 0 \<and> EC_POINT_mul_G grp k = Some C1 \<and>
             EC_POINT_mul_Q grp P (Some k) = Some S \<and>
             length (EC_POINT_point2oct grp S) = nbytes * 2 + 1 \<and>
             buf = store_oct env (EC_POINT_point2oct grp S) \<and>
             t = kdf_call kdf (at_buf env buf (- 1) (nbytes * 2)) klen)"
    if "SM2_do_encrypt_loop env grp P kdf n h nbytes klen i = Some r" for r
    by (rule SM2_do_encrypt_loop.raw_induct
          [where P = "\<lambda>env grp P kdf n h nbytes klen i r.
             \<forall>C1 buf t. r = Return (Some (C1, buf, t)) \<longrightarrow>
               (\<exists>k S. k \<noteq> 0 \<and> EC_POINT_mul_G grp k = Some C1 \<and>
                  EC_POINT_mul_Q grp P (Some k) = Some S \<and>
                  length (EC_POINT_point2oct grp S) = nbytes * 2 + 1 \<and>
                  buf = store_oct env (EC_POINT_point2oct grp S) \<and>
                  t = kdf_call kdf (at_buf env buf (- 1) (nbytes * 2)) klen)", OF _ that])
       (auto simp: Let_def dest!: rand_k_nonzero
          split: option.splits if_splits Option.bind_splits)
  with assms show ?thesis by blast
qed

lemma xor_bytes_twice: "length t = length m \<Longrightarrow> xor_bytes t (xor_bytes t m) = m"
  by (induction t m rule: list_induct2) simp_all

lemma roundtrip_exact_capacity:
  assumes enc: "SM2_do_encrypt env kdf_md mac_md inp ec_key = Some (Return (Some cv))"
    and grp: "EC_KEY_get0_group ec_key = Some grp"
    and pub: "EC_KEY_get0_public_key ec_key = Some P"
    and pri: "EC_KEY_get0_private_key ec_key = Some d"
    and cof: "EC_GROUP_get_cofactor grp = Some h"
    and ecdh: "\<And>k C1 S. EC_POINT_mul_G grp k = Some C1 \<Longrightarrow>
        EC_POINT_mul_Q grp P (Some k) = Some S \<Longrightarrow> EC_POINT_mul_Q grp C1 (Some d) = Some S"
    and sub: "\<exists>hC1. EC_POINT_mul_Q grp (ephem_point cv) (Some h) = Some hC1 \<and>
        \<not> EC_POINT_is_at_infinity grp hC1"
    and cap: "length ob = length inp"
  shows "SM2_do_decrypt env (Some pk) cv kdf_md mac_md (Some ob) (length inp) ec_key
           = Return (1, Some inp, length inp)"
proof (cases "SM2_do_encrypt_init env kdf_md mac_md inp ec_key")
  case (Inl r)
  with init_Inl [OF Inl] enc show ?thesis
    by (auto simp: SM2_do_encrypt_def)
next
  case (Inr st)
  obtain grp' P' kdf n h' nbytes where st: "st = (grp', P', kdf, n, h', nbytes)"
    by (cases st) auto
  from Inr st have init: "SM2_do_encrypt_init env kdf_md mac_md inp ec_key
      = Inr (grp', P', kdf, n, h', nbytes)"
    by simp
  from init_Inr(1,2,5) [OF init] grp pub cof have eq: "grp' = grp" "P' = P" "h' = h"
    by simp_all
  note I = init_Inr [OF init, unfolded eq] init_Inr_allocs [OF init, unfolded eq]
  have nb: "nbytes = 32"
    by (rule I)
  from enc init eq nb obtain C1 buf t tag
    where loop: "SM2_do_encrypt_loop env grp P kdf n h 32 (length inp) 0
                   = Some (Return (Some (C1, buf, t)))"
      and tag: "EVP_Digest mac_md [at_buf env buf 1 32, inp, at_buf env buf 33 32] = Some tag"
      and cv: "cv = \<lparr> ephem_point = C1, ciphertext = xor_bytes t inp,
                      ciphertext_size = length inp, mactag = tag, mactag_size = length tag \<rparr>"
    by (auto simp: SM2_do_encrypt_def split: Option.bind_splits outcome.splits option.splits)
  from loop_break_shape [OF loop] obtain k S
    where k: "k \<noteq> 0" "EC_POINT_mul_G grp k = Some C1" "EC_POINT_mul_Q grp P (Some k) = Some S"
      and len: "length (EC_POINT_point2oct grp S) = 65"
      and buf: "buf = store_oct env (EC_POINT_point2oct grp S)"
      and t: "t = kdf_call kdf (at_buf env buf (- 1) 64) (length inp)"
    by auto
  from sub cv obtain hC1
    where hC1: "EC_POINT_mul_Q grp C1 (Some h) = Some hC1" "\<not> EC_POINT_is_at_infinity grp hC1"
    by auto
  have S: "EC_POINT_mul_Q grp C1 (Some d) = Some S"
    by (rule ecdh [OF k(2,3)])
  from len have ne: "EC_POINT_point2oct grp S \<noteq> []"
    by auto
  have lt: "length t = length inp"
    by (simp add: t length_kdf_call)
  have B5: "SM2_do_decrypt_upto_B5 env (Some pk) cv kdf_md mac_md (Some ob) (length inp) ec_key
      = Inr (32, buf, inp)"
    using I nb hC1 S ne len cap lt
    by (simp add: SM2_do_decrypt_upto_B5_def grp pri cv Let_def buf [symmetric] t [symmetric]
        xor_bytes_twice length_xor_bytes)
  show ?thesis
    unfolding SM2_do_decrypt_def B5 by (simp add: tag cv)
qed

subsection \<open>The instance, evaluated\<close>

lemma demo_num_bytes: "BN_num_bytes demo_order = 32"
  by (simp add: demo_order_def BN_num_bytes.simps)

lemma demo_rand_k: "rand_k (demo_env b) n i = Some (3, Suc i)"
  by (subst rand_k.simps) (simp add: demo_env_def)

lemma demo_init:
  "SM2_do_encrypt_init (demo_env b) (demo_md 32) (demo_md 32) inp (demo_key P)
     = Inr (demo_group, P, demo_kdf, demo_order, 1, 32)"
  by (simp add: SM2_do_encrypt_init_def demo_env_def demo_md_def demo_key_def demo_group_def
      demo_num_bytes)

lemma demo_buf:
  "store_oct (demo_env b) (demo_point2oct 15)
     = 4 # replicate 32 15 @ replicate 32 16 @ replicate 103 0"
  by (simp add: store_oct_def demo_point2oct_def demo_env_def flip: replicate_add)

lemma demo_kdf_arg:
  "at_buf (demo_env b) (4 # replicate 32 15 @ replicate 32 16 @ replicate 103 0) (- 1) 64
     = b # 4 # replicate 32 15 @ replicate 30 16"
  by (simp add: at_buf_def demo_env_def)

lemma demo_x2:
  "at_buf (demo_env b) (4 # replicate 32 15 @ replicate 32 16 @ replicate 103 0) 1 32
     = replicate 32 15"
  by (simp add: at_buf_def demo_env_def)

lemma demo_y2:
  "at_buf (demo_env b) (4 # replicate 32 15 @ replicate 32 16 @ replicate 103 0) 33 32
     = replicate 32 16"
  by (simp add: at_buf_def demo_env_def)

lemma demo_kdf_val:
  "demo_kdf (b # 4 # replicate 32 15 @ replicate 30 16) klen i = b + of_nat i + 197"
  by (simp add: demo_kdf_def sum_list_replicate)

lemma demo_mask:
  "kdf_call demo_kdf (b # 4 # replicate 32 15 @ replicate 30 16) klen
     = map (\<lambda>i. b + of_nat i + 197) [0..<klen]"
  by (simp add: kdf_call_def demo_kdf_val)

lemma demo_mul_Q: "EC_POINT_mul_Q demo_group q (Some m) = Some (m * q mod 2 ^ 255)"
  by (simp add: demo_group_def demo_order_def)

lemma demo_ops:
  "EC_POINT_mul_G demo_group k = Some (k mod 2 ^ 255)"
  "EC_POINT_is_at_infinity demo_group q = (q = 0)"
  "EC_POINT_point2oct demo_group = demo_point2oct"
  "length (demo_point2oct 15) = 65"
  "demo_point2oct 15 \<noteq> []"
  by (simp_all add: demo_group_def demo_order_def demo_point2oct_def)

lemma demo_loop:
  assumes "\<not> list_all (\<lambda>x. x = 0) (map (\<lambda>i. b + of_nat i + 197) [0..<klen])"
  shows "SM2_do_encrypt_loop (demo_env b) demo_group 5 demo_kdf demo_order (Suc 0) 32 klen i
    = Some (Return (Some (3, 4 # replicate 32 15 @ replicate 32 16 @ replicate 103 0,
         map (\<lambda>i. b + of_nat i + 197) [0..<klen])))"
  using assms
  by (subst SM2_do_encrypt_loop.simps)
     (simp add: demo_rand_k demo_mul_Q demo_ops demo_buf demo_kdf_arg demo_mask Let_def)

lemma demo_digest:
  "EVP_Digest (demo_md 32) [replicate 32 15, m, replicate 32 16]
     = Some (of_nat (64 + length m) # (224 + sum_list m) # replicate 30 0)"
  by (simp add: demo_md_def sum_list_replicate)

lemma demo_encrypt:
  "SM2_do_encrypt (demo_env 0) (demo_md 32) (demo_md 32) [0x41, 0x42] (demo_key 5)
     = Some (Return (Some demo_cv))"
  by (simp add: SM2_do_encrypt_def demo_init demo_loop demo_x2 demo_y2 demo_digest demo_cv_def)

lemma demo_upto_B5:
  assumes "ciphertext_size cv \<le> outlen" and "ephem_point cv = 3"
  shows "SM2_do_decrypt_upto_B5 (demo_env b) (Some pk) cv (demo_md 32) (demo_md 32) (Some ob)
            outlen (demo_key P)
    = Inr (32, 4 # replicate 32 15 @ replicate 32 16 @ replicate 103 0,
           xor_bytes (map (\<lambda>i. b + of_nat i + 197) [0..<outlen] @ drop outlen ob)
             (take (ciphertext_size cv) (ciphertext cv)))"
proof -
  have "KDF_get_x9_63 (demo_env b) (demo_md 32) = Some demo_kdf"
    "EC_POINT_new (demo_env b)" "BN_new (demo_env b)" "BN_CTX_new (demo_env b)"
    "EVP_MD_CTX_create (demo_env b)"
    "EC_KEY_get0_group (demo_key P) = Some demo_group"
    "EC_KEY_get0_private_key (demo_key P) = Some 5"
    "EC_GROUP_get_order demo_group = Some demo_order"
    "EC_GROUP_get_cofactor demo_group = Some 1"
    "EC_GROUP_get_degree demo_group = 256"
    "EVP_MD_size (demo_md 32) = 32"
    by (simp_all add: demo_env_def demo_key_def demo_group_def demo_md_def)
  with assms show ?thesis
    by (simp add: SM2_do_decrypt_upto_B5_def demo_num_bytes demo_mul_Q demo_ops demo_buf
        demo_kdf_arg demo_mask Let_def)
qed

lemma demo_upt: "[0..<2] = [0, 1]" "[0..<3] = [0, 1, 2]"
  by (simp_all add: upt_rec)



section \<open>The claims\<close>

text \<open>
  C1. The round trip fails on the code as soon as the declared capacity exceeds the length
  of the message. In the instance, the one-byte message \<open>[0x4D]\<close> is encrypted to
  \<open>demo_cv1\<close>; decrypting that value with the matching private key and a buffer of
  capacity 2 returns 0: the KDF writes two mask bytes (line 246), the tag is recomputed
  over both bytes of the buffer (line 261) and differs from the tag of the one-byte
  message. (At capacity exactly 1 the round trip succeeds, by \<open>roundtrip_exact_capacity\<close>.)
\<close>

theorem C1_roundtrip_fails_when_capacity_exceeds_length:
  "SM2_do_encrypt (demo_env 0) (demo_md 32) (demo_md 32) [0x4D] (demo_key 5)
     = Some (Return (Some demo_cv1))
   \<and> SM2_do_decrypt (demo_env 0) (Some (5 :: nat)) demo_cv1 (demo_md 32) (demo_md 32)
       (Some [0, 0]) 2 (demo_key 5) = Return (0, Some [0x4D, 198], 2)"
  by (simp add: SM2_do_encrypt_def demo_init demo_loop SM2_do_decrypt_def demo_upto_B5
      demo_x2 demo_y2 demo_digest demo_cv1_def demo_upt)

text \<open>
  C2, as amended. When the call reaches step B6 and the recomputed tag differs from
  \<^verbatim>\<open>cv->mactag\<close> in length or in a byte, \<^verbatim>\<open>SM2_do_decrypt\<close> returns 0 and leaves \<^verbatim>\<open>*outlen\<close>
  as it was; the caller's buffer is left as steps B4 and B5 made it, that is, holding the
  mask combined with the ciphertext (the candidate plaintext, over whose first \<^verbatim>\<open>*outlen\<close>
  bytes the tag was recomputed): it is not cleared.
\<close>

theorem C2_mac_mismatch_returns_0_buffer_kept:
  assumes B5: "SM2_do_decrypt_upto_B5 env pub_key cv kdf_md mac_md out outlen ec_key
                 = Inr (nbytes, buf, out2)"
    and mac: "EVP_Digest mac_md [at_buf env buf 1 nbytes, take outlen out2,
                at_buf env buf (1 + int nbytes) nbytes] = Some mac"
    and differ: "mactag_size cv \<noteq> length mac \<or> take (length mac) (mactag cv) \<noteq> mac"
  shows "SM2_do_decrypt env pub_key cv kdf_md mac_md out outlen ec_key
           = Return (0, Some out2, outlen) \<and>
         (\<exists>ob kdf z. out = Some ob \<and> KDF_get_x9_63 env kdf_md = Some kdf \<and>
            out2 = xor_bytes (kdf_call kdf z outlen @ drop outlen ob)
                     (take (ciphertext_size cv) (ciphertext cv)))"
proof
  from B5 mac differ
  show "SM2_do_decrypt env pub_key cv kdf_md mac_md out outlen ec_key
          = Return (0, Some out2, outlen)"
    by (auto simp: SM2_do_decrypt_def)
  from upto_B5_Inr [OF B5]
  show "\<exists>ob kdf z. out = Some ob \<and> KDF_get_x9_63 env kdf_md = Some kdf \<and>
            out2 = xor_bytes (kdf_call kdf z outlen @ drop outlen ob)
                     (take (ciphertext_size cv) (ciphertext cv))"
    by blast
qed

theorem C2_witness:
  "SM2_do_decrypt_upto_B5 (demo_env 0) (Some (5 :: nat)) (demo_cv \<lparr> mactag := 0 # 99 # replicate 30 0 \<rparr>)
     (demo_md 32) (demo_md 32) (Some [0, 0]) 2 (demo_key 5)
     = Inr (32, 4 # replicate 32 15 @ replicate 32 16 @ replicate 103 0, [0x41, 0x42])
   \<and> EVP_Digest (demo_md 32) [replicate 32 15, [0x41, 0x42], replicate 32 16]
       = Some (66 # 99 # replicate 30 0)
   \<and> take 32 (mactag (demo_cv \<lparr> mactag := 0 # 99 # replicate 30 0 \<rparr>)) \<noteq> 66 # 99 # replicate 30 0
   \<and> SM2_do_decrypt (demo_env 0) (Some (5 :: nat)) (demo_cv \<lparr> mactag := 0 # 99 # replicate 30 0 \<rparr>)
       (demo_md 32) (demo_md 32) (Some [0, 0]) 2 (demo_key 5) = Return (0, Some [0x41, 0x42], 2)"
proof -
  let ?cv = "demo_cv \<lparr> mactag := 0 # 99 # replicate 30 0 \<rparr>"
  let ?buf = "4 # replicate 32 15 @ replicate 32 16 @ replicate 103 0 :: octets"
  have B5: "SM2_do_decrypt_upto_B5 (demo_env 0) (Some (5 :: nat)) ?cv (demo_md 32) (demo_md 32)
      (Some [0, 0]) 2 (demo_key 5) = Inr (32, ?buf, [0x41, 0x42])"
    by (simp add: demo_upto_B5 demo_cv_def demo_upt)
  have mac: "EVP_Digest (demo_md 32) [at_buf (demo_env 0) ?buf 1 32, take 2 [0x41, 0x42],
      at_buf (demo_env 0) ?buf (1 + int 32) 32] = Some (66 # 99 # replicate 30 0)"
    by (simp add: demo_x2 demo_y2 demo_digest)
  have differ: "mactag_size ?cv \<noteq> length (66 # 99 # replicate 30 (0 :: byte)) \<or>
      take (length (66 # 99 # replicate 30 (0 :: byte))) (mactag ?cv) \<noteq> 66 # 99 # replicate 30 0"
    by (simp add: demo_cv_def)
  from C2_mac_mismatch_returns_0_buffer_kept [OF B5 mac differ] B5 mac differ
  show ?thesis
    by (simp add: demo_x2 demo_y2)
qed

text \<open>
  C2 as stated fails: decrypting \<open>demo_cv\<close> returns 1 with the plaintext
  \<open>[0x41, 0x42]\<close> in the buffer; with the first byte of the tag changed the call
  returns 0, and the buffer, zero before the call, holds the same plaintext.
\<close>

theorem C2_counterexample:
  "SM2_do_decrypt (demo_env 0) (Some (5 :: nat)) demo_cv (demo_md 32) (demo_md 32) (Some [0, 0]) 2
     (demo_key 5) = Return (1, Some [0x41, 0x42], 2)
   \<and> SM2_do_decrypt (demo_env 0) (Some (5 :: nat)) (demo_cv \<lparr> mactag := 0 # 99 # replicate 30 0 \<rparr>)
       (demo_md 32) (demo_md 32) (Some [0, 0]) 2 (demo_key 5) = Return (0, Some [0x41, 0x42], 2)"
  by (simp add: SM2_do_decrypt_def demo_upto_B5 demo_x2 demo_y2 demo_digest demo_cv_def
      demo_upt)

text \<open>
  C3. The KDF is not given \<open>x2 || y2\<close>: both functions pass the \<open>len - 1\<close> bytes at
  \<^verbatim>\<open>buf - 1\<close>. In the instance, with the byte 7 stored below \<^verbatim>\<open>buf\<close>, these are that byte,
  the prefix \<open>0x04\<close>, \<open>x2\<close> and the first 30 bytes of \<open>y2\<close>, whereas the bytes at
  \<^verbatim>\<open>buf + 1\<close> and \<^verbatim>\<open>buf + 1 + nbytes\<close> are \<open>x2\<close> and \<open>y2\<close>. The byte below \<^verbatim>\<open>buf\<close> decides
  the result: the same message under the same key and draw encrypts to different payloads
  when that byte is 0 and when it is 7, and a ciphertext made with the byte 0 is rejected
  by a decryption whose frame holds 7 there.
\<close>

theorem C3_kdf_input_starts_below_buf:
  "at_buf (demo_env 7) (store_oct (demo_env 7) (demo_point2oct 15)) (- 1) (65 - 1)
     = 7 # 4 # replicate 32 15 @ replicate 30 16
   \<and> at_buf (demo_env 7) (store_oct (demo_env 7) (demo_point2oct 15)) 1 32
       @ at_buf (demo_env 7) (store_oct (demo_env 7) (demo_point2oct 15)) (1 + int 32) 32
     = replicate 32 15 @ replicate 32 16
   \<and> SM2_do_encrypt (demo_env 0) (demo_md 32) (demo_md 32) [0x41, 0x42] (demo_key 5)
     = Some (Return (Some demo_cv))
   \<and> SM2_do_encrypt (demo_env 7) (demo_md 32) (demo_md 32) [0x41, 0x42] (demo_key 5)
     = Some (Return (Some (demo_cv \<lparr> ciphertext := [0x8D, 0x8F] \<rparr>)))
   \<and> SM2_do_decrypt (demo_env 7) (Some (5 :: nat)) demo_cv (demo_md 32) (demo_md 32)
       (Some [0, 0]) 2 (demo_key 5) = Return (0, Some [0x48, 0x49], 2)"
  by (simp add: SM2_do_encrypt_def demo_init demo_loop SM2_do_decrypt_def demo_upto_B5
      demo_buf demo_kdf_arg demo_x2 demo_y2 demo_digest demo_cv_def demo_upt)

text \<open>
  C4. The mask and the recomputed tag follow \<^verbatim>\<open>*outlen\<close>, not \<^verbatim>\<open>cv->ciphertext_size\<close>. In
  the instance, \<open>demo_cv\<close> has a payload of 2 bytes: with capacity 2 the call returns 1;
  with capacity 3 the KDF writes a third mask byte (199) to the buffer, the tag is
  recomputed over 3 bytes, and the call returns 0.
\<close>

theorem C4_mask_and_mac_cover_outlen_bytes:
  "SM2_do_decrypt (demo_env 0) (Some (5 :: nat)) demo_cv (demo_md 32) (demo_md 32)
     (Some [0, 0]) 2 (demo_key 5) = Return (1, Some [0x41, 0x42], 2)
   \<and> SM2_do_decrypt (demo_env 0) (Some (5 :: nat)) demo_cv (demo_md 32) (demo_md 32)
       (Some [0, 0, 0]) 3 (demo_key 5) = Return (0, Some [0x41, 0x42, 199], 3)"
  by (simp add: SM2_do_decrypt_def demo_upto_B5 demo_x2 demo_y2 demo_digest demo_cv_def
      demo_upt)

text \<open>
  C5, as amended. If the KDF digest or the MAC digest has an output size other than 32,
  a call of \<^verbatim>\<open>SM2_do_encrypt\<close> or \<^verbatim>\<open>SM2_do_decrypt\<close> that reaches the assertions of lines
  79 to 81 and 224 to 226 (the \<^verbatim>\<open>NULL\<close> checks and the allocations pass, the order and the
  cofactor are fetched, \<open>nbytes\<close> is 32 and is the byte length of the order, and
  \<^verbatim>\<open>SM2_do_decrypt\<close> is given a buffer of sufficient capacity) is aborted by
  \<^verbatim>\<open>OPENSSL_assert\<close>: nothing is returned to the caller. This holds whatever the point
  multiplications, the encoding and the random draws are: none of them has run.
\<close>

theorem C5_digest_size_assertion:
  assumes size: "EVP_MD_size kdf_md \<noteq> 32 \<or> EVP_MD_size mac_md \<noteq> 32"
    and grp: "EC_KEY_get0_group ec_key = Some grp"
    and kdf: "KDF_get_x9_63 env kdf_md = Some kdf"
    and alloc: "EC_POINT_new env" "BN_new env" "BN_CTX_new env" "EVP_MD_CTX_create env"
    and dom: "EC_GROUP_get_order grp = Some n" "EC_GROUP_get_cofactor grp = Some h"
      "(EC_GROUP_get_degree grp + 7) div 8 = 32" "BN_num_bytes n = 32"
  shows "(EC_KEY_get0_public_key ec_key = Some P \<longrightarrow>
          OPENSSL_malloc env (sizeof_SM2_CIPHERTEXT_VALUE env) \<longrightarrow>
          OPENSSL_malloc env (length inp) \<longrightarrow>
          SM2_do_encrypt env kdf_md mac_md inp ec_key = Some Abort) \<and>
         (pub_key = Some pk \<longrightarrow> ciphertext_size cv \<le> outlen \<longrightarrow>
          SM2_do_decrypt env pub_key cv kdf_md mac_md (Some ob) outlen ec_key = Abort)"
proof (intro conjI impI)
  assume "EC_KEY_get0_public_key ec_key = Some P"
    and "OPENSSL_malloc env (sizeof_SM2_CIPHERTEXT_VALUE env)"
    and "OPENSSL_malloc env (length inp)"
  with assms have "SM2_do_encrypt_init env kdf_md mac_md inp ec_key = Inl Abort"
    by (auto simp: SM2_do_encrypt_init_def)
  then show "SM2_do_encrypt env kdf_md mac_md inp ec_key = Some Abort"
    by (simp add: SM2_do_encrypt_def)
next
  assume "pub_key = Some pk" and "ciphertext_size cv \<le> outlen"
  with assms
  have "SM2_do_decrypt_upto_B5 env pub_key cv kdf_md mac_md (Some ob) outlen ec_key = Inl Abort"
    by (auto simp: SM2_do_decrypt_upto_B5_def)
  then show "SM2_do_decrypt env pub_key cv kdf_md mac_md (Some ob) outlen ec_key = Abort"
    by (simp add: SM2_do_decrypt_def)
qed

theorem C5_witness:
  "EVP_MD_size (demo_md 20) = 20
   \<and> SM2_do_encrypt (demo_env 0) (demo_md 20) (demo_md 32) [0x41, 0x42] (demo_key 5) = Some Abort
   \<and> SM2_do_decrypt (demo_env 0) (Some (5 :: nat)) demo_cv (demo_md 20) (demo_md 32)
        (Some [0, 0]) 2 (demo_key 5) = Abort"
proof -
  have sz: "EVP_MD_size (demo_md 20) = 20"
    by (simp add: demo_md_def)
  then have size: "EVP_MD_size (demo_md 20) \<noteq> 32 \<or> EVP_MD_size (demo_md 32) \<noteq> 32"
    by simp
  have pre: "EC_KEY_get0_group (demo_key 5) = Some demo_group"
    "KDF_get_x9_63 (demo_env 0) (demo_md 20) = Some demo_kdf"
    "EC_POINT_new (demo_env 0)" "BN_new (demo_env 0)" "BN_CTX_new (demo_env 0)"
    "EVP_MD_CTX_create (demo_env 0)"
    "EC_GROUP_get_order demo_group = Some demo_order"
    "EC_GROUP_get_cofactor demo_group = Some 1"
    "(EC_GROUP_get_degree demo_group + 7) div 8 = 32"
    by (simp_all add: demo_key_def demo_env_def demo_group_def)
  have more: "EC_KEY_get0_public_key (demo_key 5) = Some 5"
    "OPENSSL_malloc (demo_env 0) (sizeof_SM2_CIPHERTEXT_VALUE (demo_env 0))"
    "OPENSSL_malloc (demo_env 0) (length [0x41, 0x42 :: byte])"
    "ciphertext_size demo_cv \<le> 2"
    by (simp_all add: demo_key_def demo_env_def demo_cv_def)
  from C5_digest_size_assertion [OF size pre demo_num_bytes,
      of 5 "[0x41, 0x42]" "Some (5 :: nat)" 5 demo_cv 2 "[0, 0]"] more sz
  show ?thesis
    by simp
qed

text \<open>
  C5 as stated fails: with a KDF digest and a MAC digest of 20 bytes, a call of
  \<^verbatim>\<open>SM2_do_decrypt\<close> without a buffer returns 1.
\<close>

theorem C5_counterexample:
  "EVP_MD_size (demo_md 20) = 20
   \<and> SM2_do_decrypt (demo_env 0) (Some (5 :: nat)) demo_cv (demo_md 20) (demo_md 20) None 0
        (demo_key 5) = Return (1, None, 2)"
  by (simp add: SM2_do_decrypt_def SM2_do_decrypt_upto_B5_def demo_key_def demo_env_def
      demo_md_def demo_cv_def)

text \<open>
  C6, as amended. A call of \<^verbatim>\<open>SM2_do_encrypt\<close> with a message of length zero does one of
  two things. When \<^verbatim>\<open>OPENSSL_malloc(0)\<close> is \<^verbatim>\<open>NULL\<close>, the test of line 54 sends it to
  \<^verbatim>\<open>err\<close> and it returns \<^verbatim>\<open>NULL\<close> before the retry loop (or an earlier \<^verbatim>\<open>NULL\<close> check or
  allocation has done so). When \<^verbatim>\<open>OPENSSL_malloc(0)\<close> is a pointer and the call reaches the
  retry loop, it does not terminate: if \<open>[h]P\<close> is not the point at infinity and for every
  non-zero draw \<open>k\<close> the two multiplications succeed and the shared point encodes to 65
  bytes, the mask is empty, the test at line 121 holds in every iteration, and the call
  never returns.
\<close>

theorem C6_empty_message_returns_NULL_or_never_returns:
  "(\<not> OPENSSL_malloc env 0 \<longrightarrow>
      SM2_do_encrypt env kdf_md mac_md [] ec_key = Some (Return None)) \<and>
   (OPENSSL_malloc env 0 \<longrightarrow>
    SM2_do_encrypt_init env kdf_md mac_md [] ec_key = Inr (grp, P, kdf, n, h, nbytes) \<longrightarrow>
    EC_POINT_mul_Q grp P (Some h) = Some hP \<longrightarrow>
    \<not> EC_POINT_is_at_infinity grp hP \<longrightarrow>
    (\<forall>i k. BN_rand_range env i n = k \<longrightarrow> k \<noteq> 0 \<longrightarrow>
       (\<exists>C1 S. EC_POINT_mul_G grp k = Some C1 \<and> EC_POINT_mul_Q grp P (Some k) = Some S \<and>
          length (EC_POINT_point2oct grp S) = 65)) \<longrightarrow>
    SM2_do_encrypt env kdf_md mac_md [] ec_key = None)"
proof (intro conjI impI)
  assume "\<not> OPENSSL_malloc env 0"
  then have "SM2_do_encrypt_init env kdf_md mac_md [] ec_key = Inl (Return None)"
    by (simp add: SM2_do_encrypt_init_def split: option.splits)
  then show "SM2_do_encrypt env kdf_md mac_md [] ec_key = Some (Return None)"
    by (simp add: SM2_do_encrypt_def)
next
  assume init: "SM2_do_encrypt_init env kdf_md mac_md [] ec_key = Inr (grp, P, kdf, n, h, nbytes)"
    and hP: "EC_POINT_mul_Q grp P (Some h) = Some hP" "\<not> EC_POINT_is_at_infinity grp hP"
    and draws: "\<forall>i k. BN_rand_range env i n = k \<longrightarrow> k \<noteq> 0 \<longrightarrow>
       (\<exists>C1 S. EC_POINT_mul_G grp k = Some C1 \<and> EC_POINT_mul_Q grp P (Some k) = Some S \<and>
          length (EC_POINT_point2oct grp S) = 65)"
  have nb: "nbytes = 32"
    using init by (rule init_Inr)
  from draws have "\<exists>C1 S. EC_POINT_mul_G grp k = Some C1 \<and>
      EC_POINT_mul_Q grp P (Some k) = Some S \<and> length (EC_POINT_point2oct grp S) = 65"
    if "BN_rand_range env i n = k" and "k \<noteq> 0" for i k
    using that by blast
  from loop_empty_diverges [OF hP this] nb
  have "SM2_do_encrypt_loop env grp P kdf n h nbytes 0 0 = None"
    by simp
  with init show "SM2_do_encrypt env kdf_md mac_md [] ec_key = None"
    by (simp add: SM2_do_encrypt_def)
qed

theorem C6_witness:
  "\<not> OPENSSL_malloc demo_env_null0 0
   \<and> SM2_do_encrypt demo_env_null0 (demo_md 32) (demo_md 32) [] (demo_key 5) = Some (Return None)
   \<and> OPENSSL_malloc (demo_env 0) 0
   \<and> SM2_do_encrypt_init (demo_env 0) (demo_md 32) (demo_md 32) [] (demo_key 5)
       = Inr (demo_group, 5, demo_kdf, demo_order, 1, 32)
   \<and> EC_POINT_mul_Q demo_group 5 (Some 1) = Some 5
   \<and> \<not> EC_POINT_is_at_infinity demo_group 5
   \<and> SM2_do_encrypt (demo_env 0) (demo_md 32) (demo_md 32) [] (demo_key 5) = None"
proof -
  have null0: "\<not> OPENSSL_malloc demo_env_null0 0"
    by (simp add: demo_env_null0_def)
  have ptr0: "OPENSSL_malloc (demo_env 0) 0"
    by (simp add: demo_env_def)
  have hP: "EC_POINT_mul_Q demo_group 5 (Some 1) = Some 5"
    "\<not> EC_POINT_is_at_infinity demo_group 5"
    by (simp_all add: demo_mul_Q demo_ops)
  have draws: "\<exists>C1 S. EC_POINT_mul_G demo_group k = Some C1 \<and>
      EC_POINT_mul_Q demo_group 5 (Some k) = Some S \<and>
      length (EC_POINT_point2oct demo_group S) = 65"
    if "BN_rand_range (demo_env 0) i demo_order = k" for i k
  proof -
    from that have "k = 3"
      by (simp add: demo_env_def)
    then show ?thesis
      by (simp add: demo_mul_Q demo_ops)
  qed
  note both = C6_empty_message_returns_NULL_or_never_returns
  from both [THEN conjunct1, rule_format, OF null0]
  have a: "SM2_do_encrypt demo_env_null0 (demo_md 32) (demo_md 32) [] (demo_key 5)
      = Some (Return None)" .
  from both [THEN conjunct2, rule_format, OF ptr0 demo_init hP draws]
  have b: "SM2_do_encrypt (demo_env 0) (demo_md 32) (demo_md 32) [] (demo_key 5) = None" .
  from null0 a ptr0 demo_init hP b show ?thesis
    by simp
qed

text \<open>
  C6 as stated fails: with an allocator that returns \<^verbatim>\<open>NULL\<close> for zero bytes, the call with
  the empty message returns \<^verbatim>\<open>NULL\<close>; it terminates.
\<close>

theorem C6_counterexample:
  "OPENSSL_malloc demo_env_null0 0 = False
   \<and> SM2_do_encrypt demo_env_null0 (demo_md 32) (demo_md 32) [] (demo_key 5)
       = Some (Return None)"
  by (simp add: SM2_do_encrypt_def SM2_do_encrypt_init_def demo_env_null0_def demo_env_def
      demo_key_def)

text \<open>
  C7. If \<open>[h]P\<close> is the point at infinity for the public point \<open>P\<close> of the key,
  \<^verbatim>\<open>SM2_do_encrypt\<close> never returns a ciphertext value; and when the checks before the loop
  pass and a non-zero scalar is drawn, the call returns \<^verbatim>\<open>NULL\<close> in the first iteration,
  whatever the later draws would be.
\<close>

theorem C7_degenerate_public_key:
  assumes grp: "EC_KEY_get0_group ec_key = Some grp"
    and pub: "EC_KEY_get0_public_key ec_key = Some P"
    and h: "EC_GROUP_get_cofactor grp = Some h"
    and hP: "EC_POINT_mul_Q grp P (Some h) = Some hP"
    and inf: "EC_POINT_is_at_infinity grp hP"
  shows "SM2_do_encrypt env kdf_md mac_md inp ec_key \<noteq> Some (Return (Some cv)) \<and>
    (\<forall>kdf n nbytes.
       SM2_do_encrypt_init env kdf_md mac_md inp ec_key = Inr (grp, P, kdf, n, h, nbytes) \<longrightarrow>
       rand_k env n 0 \<noteq> None \<longrightarrow>
       SM2_do_encrypt env kdf_md mac_md inp ec_key = Some (Return None))"
proof (cases "SM2_do_encrypt_init env kdf_md mac_md inp ec_key")
  case (Inl r)
  with init_Inl [OF Inl] show ?thesis
    by (auto simp: SM2_do_encrypt_def)
next
  case (Inr st)
  obtain grp' P' kdf n h' nbytes where st: "st = (grp', P', kdf, n, h', nbytes)"
    by (cases st) auto
  from Inr st have init: "SM2_do_encrypt_init env kdf_md mac_md inp ec_key
      = Inr (grp', P', kdf, n, h', nbytes)"
    by simp
  from init_Inr(1,2,5) [OF init] grp pub h have eq: "grp' = grp" "P' = P" "h' = h"
    by simp_all
  have enc: "SM2_do_encrypt env kdf_md mac_md inp ec_key
      = (case rand_k env n 0 of None \<Rightarrow> None | Some kj \<Rightarrow> Some (Return None))"
    using init eq
    by (simp add: SM2_do_encrypt_def loop_infinity [OF hP inf] split: option.splits)
  show ?thesis
    using init eq by (auto simp: enc split: option.splits)
qed

theorem C7_witness:
  "EC_POINT_mul_Q demo_group 0 (Some 1) = Some 0
   \<and> EC_POINT_is_at_infinity demo_group 0
   \<and> SM2_do_encrypt (demo_env 0) (demo_md 32) (demo_md 32) [0x41, 0x42] (demo_key 0)
       = Some (Return None)"
proof -
  have g: "EC_KEY_get0_group (demo_key 0) = Some demo_group"
    and p: "EC_KEY_get0_public_key (demo_key 0) = Some 0"
    and h: "EC_GROUP_get_cofactor demo_group = Some 1"
    by (simp_all add: demo_key_def demo_group_def)
  have hP: "EC_POINT_mul_Q demo_group 0 (Some 1) = Some 0"
    and inf: "EC_POINT_is_at_infinity demo_group 0"
    by (simp_all add: demo_mul_Q demo_ops)
  from C7_degenerate_public_key [OF g p h hP inf, of "demo_env 0" "demo_md 32" "demo_md 32"
      "[0x41, 0x42]"] demo_init [of 0 "[0x41, 0x42]" 0] demo_rand_k [of 0 demo_order 0] hP inf
  show ?thesis
    by simp
qed

text \<open>
  C8. A call of \<^verbatim>\<open>SM2_do_decrypt\<close> without an output buffer (\<^verbatim>\<open>out\<close> is \<^verbatim>\<open>NULL\<close>), whatever
  capacity \<^verbatim>\<open>*outlen\<close> declares and so for capacity 0, returns 1 and stores
  \<^verbatim>\<open>cv->ciphertext_size\<close> in \<^verbatim>\<open>*outlen\<close>, once the \<^verbatim>\<open>NULL\<close> checks of lines 188 to 193
  have passed; no plaintext byte is written, there being no buffer.
\<close>

theorem C8_capacity_query:
  assumes "EC_KEY_get0_group ec_key = Some grp" and "pub_key = Some pk"
    and "KDF_get_x9_63 env kdf_md = Some kdf"
  shows "SM2_do_decrypt env pub_key cv kdf_md mac_md None outlen ec_key
           = Return (1, None, ciphertext_size cv)"
  using assms by (simp add: SM2_do_decrypt_def SM2_do_decrypt_upto_B5_def)

theorem C8_witness:
  "EC_KEY_get0_group (demo_key 5) = Some demo_group
   \<and> KDF_get_x9_63 (demo_env 0) (demo_md 32) = Some demo_kdf
   \<and> SM2_do_decrypt (demo_env 0) (Some (5 :: nat)) demo_cv (demo_md 32) (demo_md 32) None 0
        (demo_key 5) = Return (1, None, 2)"
proof -
  have g: "EC_KEY_get0_group (demo_key 5) = Some demo_group"
    by (simp add: demo_key_def)
  have k: "KDF_get_x9_63 (demo_env 0) (demo_md 32) = Some demo_kdf"
    by (simp add: demo_env_def)
  from C8_capacity_query [OF g refl k, of "5 :: nat" demo_cv "demo_md 32" 0] g k
  show ?thesis
    by (simp add: demo_cv_def)
qed

text \<open>
  C9. Every ciphertext value that \<^verbatim>\<open>SM2_do_encrypt\<close> returns records the length of the
  message as \<^verbatim>\<open>ciphertext_size\<close>, and its masked payload has that many bytes.
\<close>

theorem C9_ciphertext_size_is_inlen:
  assumes "SM2_do_encrypt env kdf_md mac_md inp ec_key = Some (Return (Some cv))"
  shows "ciphertext_size cv = length inp \<and> length (ciphertext cv) = length inp"
proof (cases "SM2_do_encrypt_init env kdf_md mac_md inp ec_key")
  case (Inl r)
  with init_Inl [OF Inl] assms show ?thesis
    by (auto simp: SM2_do_encrypt_def)
next
  case (Inr st)
  obtain grp P kdf n h nbytes where st: "st = (grp, P, kdf, n, h, nbytes)"
    by (cases st) auto
  from assms Inr st obtain C1 buf t tag
    where loop: "SM2_do_encrypt_loop env grp P kdf n h nbytes (length inp) 0 = Some (Return (Some (C1, buf, t)))"
      and cv: "cv = \<lparr> ephem_point = C1, ciphertext = xor_bytes t inp, ciphertext_size = length inp,
                      mactag = tag, mactag_size = length tag \<rparr>"
    by (auto simp: SM2_do_encrypt_def split: Option.bind_splits outcome.splits option.splits)
  from loop_break [OF loop] cv show ?thesis
    by (simp add: length_xor_bytes)
qed

theorem C9_witness:
  "SM2_do_encrypt (demo_env 0) (demo_md 32) (demo_md 32) [0x41, 0x42] (demo_key 5)
     = Some (Return (Some demo_cv))
   \<and> ciphertext_size demo_cv = length [0x41, 0x42 :: byte]
   \<and> length (ciphertext demo_cv) = length [0x41, 0x42 :: byte]"
  using C9_ciphertext_size_is_inlen [OF demo_encrypt] demo_encrypt
  by simp



end
